theory Spec2Isabelle
  imports Complex_Main "HOL-Library.Word"
begin

section \<open>Data model\<close>

text \<open>
  The controllers work on MongoDB documents through Mongoose models. A document is a
  record, a collection is a list of documents (the order is the order \<open>findOne\<close>
  scans), and the rooms, which the controllers only look up by id, are a map.
  Object ids are natural numbers. A JavaScript \<open>Date\<close> is its time value: the
  integral number of milliseconds since the epoch, of magnitude at most
  \<open>8.64 * 10 ^ 15\<close>. A JavaScript number is an IEEE 754 double: a stored price or
  cost is the real value of a finite double, and the arithmetic of the handlers rounds
  as the doubles do (see the subsection on numbers).
  Status, role, priority and type fields are strings, as in the source; they are only
  compared with the literals of the code. Free text that the schemas trim
  (notes, description) is a list of UTF-16 code units, as a JavaScript string is.

  A request body is typed: each field is absent (undefined) or carries a value of the
  field's type. JSON null and values of another type, which Mongoose casts or rejects,
  are outside the model. The e-mail and notification calls of the reservation
  handlers run after the writes, each inside its own \<open>try\<close>/\<open>catch\<close>; they change
  neither the response nor the collections below and are left out.
\<close>

type_synonym objectId = nat

type_synonym utf16 = "16 word list"

text \<open>
  The value of a numeric expression: a finite double, or an infinity on overflow.
  (Zero has one sign here, and no expression of the handlers yields NaN from finite
  operands.)
\<close>

datatype number = Finite real | Infinity | NegInfinity

record user =
  user_id :: objectId
  role :: string

record room =
  room_status :: string
  maxOccupancy :: int
  pricePerNight :: real

record reservation =
  res_id :: objectId
  guestId :: objectId
  roomId :: objectId
  checkInDate :: int
  checkOutDate :: int
  numberOfGuests :: "int option"
  totalAmount :: number
  specialRequests :: "string option"
  bookingSource :: string
  res_status :: string
  res_updatedAt :: "int option"

record housekeeping =
  hk_id :: objectId
  hk_roomId :: objectId
  hk_assignedTo :: "objectId option"
  taskType :: string
  hk_status :: string
  scheduledDate :: int
  completedDate :: "int option"
  hk_notes :: "utf16 option"
  hk_priority :: string
  hk_createdAt :: int
  hk_updatedAt :: int

record maintenance =
  mt_id :: objectId
  mt_roomId :: objectId
  reportedBy :: objectId
  issueType :: string
  description :: utf16
  mt_status :: string
  mt_priority :: string
  mt_assignedTo :: "objectId option"
  estimatedCost :: "real option"
  actualCost :: "real option"
  reportedAt :: int
  resolvedAt :: "int option"
  mt_notes :: "utf16 option"

record db =
  rooms :: "objectId \<rightharpoonup> room"
  reservations :: "reservation list"
  tasks :: "housekeeping list"
  requests :: "maintenance list"

text \<open>
  What a handler sends: \<open>res.status(c).json(doc)\<close> on success,
  \<open>res.status(c).json({ message })\<close> on a refusal, and the answer of the
  \<open>catch\<close> block (status 500) when a model call throws. The one message built
  from a template carries the interpolated number.
\<close>

datatype message = Text string | RoomCanOnlyAccommodate int

datatype 'a response = Success nat 'a | Failure nat message | ServerError

subsection \<open>JavaScript and Mongoose primitives\<close>

text \<open>\<open>if (s)\<close> on an optional string: undefined and the empty string are falsy.\<close>

definition truthy :: "'a list option \<Rightarrow> bool" where
  "truthy s = (case s of None \<Rightarrow> False | Some v \<Rightarrow> v \<noteq> [])"

text \<open>
  \<open>numberOfGuests > room.maxOccupancy\<close>: an undefined left operand converts to NaN,
  and every comparison with NaN is false.
\<close>

definition js_gt :: "int option \<Rightarrow> int \<Rightarrow> bool" where
  "js_gt a m = (case a of None \<Rightarrow> False | Some n \<Rightarrow> n > m)"

text \<open>
  A date field of a request body: falsy (\<open>!checkInDate\<close>), or truthy and then
  either rejected by \<open>new Date\<close> (\<open>getTime()\<close> is NaN) or parsed to a time value.
\<close>

datatype date_field = Absent | Unparsable | Parsed int

fun getTime :: "date_field \<Rightarrow> int option" where
  "getTime (Parsed t) = Some t"
| "getTime _ = None"

text \<open>
  \<open>String.prototype.trim\<close>, applied by the schema option \<open>trim: true\<close>. It strips
  the code units of ECMAScript's WhiteSpace and LineTerminator productions from both
  ends: TAB, LF, VT, FF, CR, space, U+00A0, U+1680, U+2000 to U+200A, U+2028, U+2029,
  U+202F, U+205F, U+3000 and U+FEFF.
\<close>

definition whitespace :: "16 word \<Rightarrow> bool" where
  "whitespace c =
    (c \<in> set [0x0009, 0x000A, 0x000B, 0x000C, 0x000D, 0x0020, 0x00A0, 0x1680,
               0x2000, 0x2001, 0x2002, 0x2003, 0x2004, 0x2005, 0x2006, 0x2007, 0x2008,
               0x2009, 0x200A, 0x2028, 0x2029, 0x202F, 0x205F, 0x3000, 0xFEFF])"

definition trim :: "utf16 \<Rightarrow> utf16" where
  "trim s = rev (dropWhile whitespace (rev (dropWhile whitespace s)))"

subsection \<open>Numbers\<close>

text \<open>
  The result of an arithmetic operation on doubles is the exact result rounded to the
  nearest double, ties to the even significand. A double is \<open>m * 2 ^ q\<close> with
  \<open>\<bar>m\<bar> < 2 ^ 53\<close> and \<open>- 1074 \<le> q \<le> 971\<close>: \<open>quantum x\<close> is the exponent \<open>q\<close>
  of the doubles around \<open>x\<close>, \<open>round64r\<close> rounds to a multiple of \<open>2 ^ q\<close>, and
  \<open>round64\<close> answers an infinity when the rounded value is out of range.
\<close>

definition round_half_even :: "real \<Rightarrow> int" where
  "round_half_even x =
    (let f = \<lfloor>x\<rfloor>; r = x - of_int f
     in if r < 1 / 2 then f else if 1 / 2 < r then f + 1 else if even f then f else f + 1)"

definition quantum :: "real \<Rightarrow> int" where
  "quantum x = max (\<lfloor>log 2 \<bar>x\<bar>\<rfloor> - 52) (- 1074)"

definition round64r :: "real \<Rightarrow> real" where
  "round64r x =
    (if x = 0 then 0
     else of_int (round_half_even (x / 2 powi quantum x)) * 2 powi quantum x)"

definition round64 :: "real \<Rightarrow> number" where
  "round64 x =
    (let y = round64r x
     in if 2 ^ 1024 \<le> y then Infinity else if y \<le> - (2 ^ 1024) then NegInfinity else Finite y)"

text \<open>A real is a double when rounding leaves it as it is.\<close>

definition isDouble :: "real \<Rightarrow> bool" where
  "isDouble x = (round64 x = Finite x)"

text \<open>The id of a new document: one that no document of the collection has.\<close>

definition freshId :: "objectId list \<Rightarrow> objectId" where
  "freshId ids = Suc (foldr max ids 0)"

section \<open>Reservations\<close>

subsection \<open>The conflict query\<close>

text \<open>
  The \<open>$or\<close> of \<open>createReservation\<close>, clause by clause, and the whole filter of
  its \<open>Reservation.findOne\<close>.
\<close>

definition conflictClauses :: "int \<Rightarrow> int \<Rightarrow> reservation \<Rightarrow> bool" where
  "conflictClauses checkIn checkOut r =
     ((checkInDate r < checkOut \<and> checkInDate r \<ge> checkIn) \<or>
      (checkOutDate r > checkIn \<and> checkOutDate r \<le> checkOut) \<or>
      (checkInDate r \<le> checkIn \<and> checkOutDate r \<ge> checkOut))"

definition blocking :: "reservation \<Rightarrow> bool" where
  "blocking r = (res_status r \<in> set [''confirmed'', ''checked-in''])"

definition conflictQuery :: "objectId \<Rightarrow> int \<Rightarrow> int \<Rightarrow> reservation \<Rightarrow> bool" where
  "conflictQuery rid checkIn checkOut r =
     (roomId r = rid \<and> blocking r \<and> conflictClauses checkIn checkOut r)"

definition conflictingReservation ::
  "reservation list \<Rightarrow> objectId \<Rightarrow> int \<Rightarrow> int \<Rightarrow> reservation option" where
  "conflictingReservation rs rid checkIn checkOut = find (conflictQuery rid checkIn checkOut) rs"

text \<open>
  The specification's rule, in its own words: two half-open intervals \<open>[a1,a2)\<close> and
  \<open>[b1,b2)\<close> overlap iff \<open>a1 < b2 AND b1 < a2\<close>.
\<close>

definition spec_overlap :: "int \<Rightarrow> int \<Rightarrow> int \<Rightarrow> int \<Rightarrow> bool" where
  "spec_overlap a1 a2 b1 b2 = (a1 < b2 \<and> b1 < a2)"

subsection \<open>Billing\<close>

text \<open>
  \<open>Math.ceil((checkOut - checkIn) / (1000 * 60 * 60 * 24))\<close>: the difference of the
  two time values and its quotient by the milliseconds of a day are each rounded to a
  double (neither overflows: the difference is below \<open>2 ^ 54\<close>), and the ceiling of a
  double is exact.
\<close>

definition nights :: "int \<Rightarrow> int \<Rightarrow> int" where
  "nights checkIn checkOut =
    \<lceil>round64r (round64r (real_of_int (checkOut - checkIn)) / (1000 * 60 * 60 * 24))\<rceil>"

subsection \<open>createReservation\<close>

record reservation_body =
  b_roomId :: "objectId option"
  b_checkInDate :: date_field
  b_checkOutDate :: date_field
  b_numberOfGuests :: "int option"
  b_specialRequests :: "string option"
  b_bookingSource :: "string option"
  b_guestId :: "objectId option"

text \<open>
  Modelled from the spec: the Reservation schema (\<open>models/Reservation\<close>) is not among
  the sources. A reservation is persisted as Confirmed, so the status default is
  \<open>confirmed\<close>. The handlers below take the schema's validators as the parameter
  \<open>accepts\<close>, so that what is proved of a handler holds for every schema;
  \<open>Reservation.create\<close> or \<open>save\<close> on a rejected document throws, which the
  handler's \<open>catch\<close> answers with status 500.
\<close>

definition defaultReservationStatus :: string where
  "defaultReservationStatus = ''confirmed''"


text \<open>
  The document \<open>Reservation.create\<close> is called with, completed by the status default
  and a new id. A guest books for themself; staff may name the guest in the body.
\<close>

definition newReservation ::
  "db \<Rightarrow> user \<Rightarrow> reservation_body \<Rightarrow> objectId \<Rightarrow> int \<Rightarrow> int \<Rightarrow> room \<Rightarrow> reservation" where
  "newReservation st u b rid checkIn checkOut room =
    (let nights = nights checkIn checkOut;
         totalAmount = round64 (pricePerNight room * of_int nights);
         guestId = (if role u = ''guest'' then user_id u
                    else (case b_guestId b of Some g \<Rightarrow> g | None \<Rightarrow> user_id u))
     in \<lparr> res_id = freshId (map res_id (reservations st)),
          guestId = guestId,
          roomId = rid,
          checkInDate = checkIn,
          checkOutDate = checkOut,
          numberOfGuests = b_numberOfGuests b,
          totalAmount = totalAmount,
          specialRequests = b_specialRequests b,
          bookingSource = (if truthy (b_bookingSource b) then the (b_bookingSource b)
                           else ''online''),
          res_status = defaultReservationStatus,
          res_updatedAt = None \<rparr>)"

definition createReservation ::
  "(reservation \<Rightarrow> bool) \<Rightarrow> db \<Rightarrow> user \<Rightarrow> reservation_body \<Rightarrow> reservation response \<times> db" where
  "createReservation accepts st u b =
    (case b_roomId b of
       None \<Rightarrow> (Failure 400 (Text ''Room is required''), st)
     | Some rid \<Rightarrow>
      if b_checkInDate b = Absent then (Failure 400 (Text ''Check-in date is required''), st)
      else if b_checkOutDate b = Absent then (Failure 400 (Text ''Check-out date is required''), st)
      else (case getTime (b_checkInDate b) of
         None \<Rightarrow> (Failure 400 (Text ''Invalid check-in date format''), st)
       | Some checkIn \<Rightarrow>
        (case getTime (b_checkOutDate b) of
           None \<Rightarrow> (Failure 400 (Text ''Invalid check-out date format''), st)
         | Some checkOut \<Rightarrow>
          if checkOut \<le> checkIn
          then (Failure 400 (Text ''Check-out date must be after check-in date''), st)
          else (case rooms st rid of
             None \<Rightarrow> (Failure 404 (Text ''Room not found''), st)
           | Some room \<Rightarrow>
            if js_gt (b_numberOfGuests b) (maxOccupancy room)
            then (Failure 400 (RoomCanOnlyAccommodate (maxOccupancy room)), st)
            else (case conflictingReservation (reservations st) rid checkIn checkOut of
               Some c \<Rightarrow> (Failure 400 (Text ''Room is not available for the selected dates''), st)
             | None \<Rightarrow>
               let reservation = newReservation st u b rid checkIn checkOut room
               in if \<not> accepts reservation then (ServerError, st)
                  else (Success 201 reservation,
                        st\<lparr> reservations := reservations st @ [reservation],
                            rooms := (rooms st)(rid \<mapsto> room\<lparr> room_status := ''reserved'' \<rparr>) \<rparr>))))))"

subsection \<open>Lookup and save by id\<close>

definition findById :: "('a \<Rightarrow> objectId) \<Rightarrow> objectId \<Rightarrow> 'a list \<Rightarrow> 'a option" where
  "findById idOf i ds = find (\<lambda>d. idOf d = i) ds"

definition save :: "('a \<Rightarrow> objectId) \<Rightarrow> 'a \<Rightarrow> 'a list \<Rightarrow> 'a list" where
  "save idOf d ds = map (\<lambda>x. if idOf x = idOf d then d else x) ds"

subsection \<open>checkIn and checkOut\<close>

text \<open>
  Both handlers save the reservation first and then load the room through the
  populated \<open>reservation.roomId\<close>. When the room does not exist the populated field is
  null, \<open>reservation.roomId._id\<close> throws and the \<open>catch\<close> answers 500 with the
  reservation already saved. \<open>now\<close> is the value of \<open>Date.now()\<close>.
\<close>

definition checkIn ::
  "(reservation \<Rightarrow> bool) \<Rightarrow> db \<Rightarrow> objectId \<Rightarrow> int \<Rightarrow> reservation response \<times> db" where
  "checkIn accepts st i now =
    (case findById res_id i (reservations st) of
       None \<Rightarrow> (Failure 404 (Text ''Reservation not found''), st)
     | Some reservation \<Rightarrow>
       if res_status reservation \<noteq> ''confirmed''
       then (Failure 400 (Text ''Only confirmed reservations can be checked in''), st)
       else
         let reservation' = reservation\<lparr> res_status := ''checked-in'', res_updatedAt := Some now \<rparr>
         in if \<not> accepts reservation' then (ServerError, st)
            else
              let st1 = st\<lparr> reservations := save res_id reservation' (reservations st) \<rparr>
              in (case rooms st (roomId reservation') of
                    None \<Rightarrow> (ServerError, st1)
                  | Some room \<Rightarrow>
                      (Success 200 reservation',
                       st1\<lparr> rooms := (rooms st)(roomId reservation' \<mapsto>
                                         room\<lparr> room_status := ''occupied'' \<rparr>) \<rparr>)))"

definition checkOut ::
  "(reservation \<Rightarrow> bool) \<Rightarrow> db \<Rightarrow> objectId \<Rightarrow> int \<Rightarrow> reservation response \<times> db" where
  "checkOut accepts st i now =
    (case findById res_id i (reservations st) of
       None \<Rightarrow> (Failure 404 (Text ''Reservation not found''), st)
     | Some reservation \<Rightarrow>
       if res_status reservation \<noteq> ''checked-in''
       then (Failure 400 (Text ''Only checked-in reservations can be checked out''), st)
       else
         let reservation' = reservation\<lparr> res_status := ''checked-out'', res_updatedAt := Some now \<rparr>
         in if \<not> accepts reservation' then (ServerError, st)
            else
              let st1 = st\<lparr> reservations := save res_id reservation' (reservations st) \<rparr>
              in (case rooms st (roomId reservation') of
                    None \<Rightarrow> (ServerError, st1)
                  | Some room \<Rightarrow>
                      (Success 200 reservation',
                       st1\<lparr> rooms := (rooms st)(roomId reservation' \<mapsto>
                                         room\<lparr> room_status := ''cleaning'' \<rparr>) \<rparr>)))"

subsection \<open>updateReservation\<close>

record reservation_update =
  u_status :: "string option"
  u_specialRequests :: "string option"

text \<open>The block under the comment \<open>Update fields\<close>, with the time stamp.\<close>

definition applyReservationUpdate :: "reservation \<Rightarrow> reservation_update \<Rightarrow> int \<Rightarrow> reservation" where
  "applyReservationUpdate reservation b now =
    (let r1 = (if truthy (u_status b) then reservation\<lparr> res_status := the (u_status b) \<rparr>
               else reservation);
         r2 = (if truthy (u_specialRequests b) then r1\<lparr> specialRequests := u_specialRequests b \<rparr>
               else r1)
     in r2\<lparr> res_updatedAt := Some now \<rparr>)"

definition updateReservation ::
  "(reservation \<Rightarrow> bool) \<Rightarrow> db \<Rightarrow> user \<Rightarrow> objectId \<Rightarrow> reservation_update \<Rightarrow> int
     \<Rightarrow> reservation response \<times> db" where
  "updateReservation accepts st u i b now =
    (case findById res_id i (reservations st) of
       None \<Rightarrow> (Failure 404 (Text ''Reservation not found''), st)
     | Some reservation \<Rightarrow>
       if role u = ''guest'' \<and> guestId reservation \<noteq> user_id u
       then (Failure 403 (Text ''Not authorized''), st)
       else if role u = ''guest'' \<and> truthy (u_status b) \<and> u_status b \<noteq> Some ''cancelled''
       then (Failure 403 (Text ''Guests can only cancel reservations''), st)
       else
         let reservation' = applyReservationUpdate reservation b now
         in if \<not> accepts reservation' then (ServerError, st)
            else (Success 200 reservation',
                  st\<lparr> reservations := save res_id reservation' (reservations st) \<rparr>))"

section \<open>Housekeeping\<close>

text \<open>The validators of the Housekeeping schema: the three enumerations.\<close>

definition housekeepingValid :: "housekeeping \<Rightarrow> bool" where
  "housekeepingValid t =
    (taskType t \<in> set [''cleaning'', ''maintenance'', ''inspection'', ''deep-cleaning''] \<and>
     hk_status t \<in> set [''pending'', ''in-progress'', ''completed'', ''cancelled''] \<and>
     hk_priority t \<in> set [''low'', ''medium'', ''high'', ''urgent''])"

text \<open>
  The body of a task update: each schema field is absent or carries a value of the
  field's type (a key that is not a schema path is not persisted).
\<close>

record task_body =
  tb_roomId :: "objectId option"
  tb_assignedTo :: "objectId option"
  tb_taskType :: "string option"
  tb_status :: "string option"
  tb_scheduledDate :: "int option"
  tb_completedDate :: "int option"
  tb_notes :: "utf16 option"
  tb_priority :: "string option"
  tb_createdAt :: "int option"
  tb_updatedAt :: "int option"

text \<open>The branch of a housekeeping user: status and notes only.\<close>

definition staffUpdate :: "housekeeping \<Rightarrow> task_body \<Rightarrow> int \<Rightarrow> housekeeping" where
  "staffUpdate task b now =
    (let t1 = (if truthy (tb_status b) then task\<lparr> hk_status := the (tb_status b) \<rparr> else task);
         t2 = (if truthy (tb_notes b) then t1\<lparr> hk_notes := Some (trim (the (tb_notes b))) \<rparr> else t1)
     in if tb_status b = Some ''completed'' then t2\<lparr> completedDate := Some now \<rparr> else t2)"

text \<open>The branch of every other role: each key of the body that is defined is copied.\<close>

definition copyKeys :: "housekeeping \<Rightarrow> task_body \<Rightarrow> housekeeping" where
  "copyKeys task b =
    task\<lparr> hk_roomId := (case tb_roomId b of Some v \<Rightarrow> v | None \<Rightarrow> hk_roomId task),
          hk_assignedTo := (case tb_assignedTo b of Some v \<Rightarrow> Some v | None \<Rightarrow> hk_assignedTo task),
          taskType := (case tb_taskType b of Some v \<Rightarrow> v | None \<Rightarrow> taskType task),
          hk_status := (case tb_status b of Some v \<Rightarrow> v | None \<Rightarrow> hk_status task),
          scheduledDate := (case tb_scheduledDate b of Some v \<Rightarrow> v | None \<Rightarrow> scheduledDate task),
          completedDate := (case tb_completedDate b of Some v \<Rightarrow> Some v | None \<Rightarrow> completedDate task),
          hk_notes := (case tb_notes b of Some v \<Rightarrow> Some (trim v) | None \<Rightarrow> hk_notes task),
          hk_priority := (case tb_priority b of Some v \<Rightarrow> v | None \<Rightarrow> hk_priority task),
          hk_createdAt := (case tb_createdAt b of Some v \<Rightarrow> v | None \<Rightarrow> hk_createdAt task),
          hk_updatedAt := (case tb_updatedAt b of Some v \<Rightarrow> v | None \<Rightarrow> hk_updatedAt task) \<rparr>"

definition managerUpdate :: "housekeeping \<Rightarrow> task_body \<Rightarrow> int \<Rightarrow> housekeeping" where
  "managerUpdate task b now =
    (let t1 = copyKeys task b
     in if tb_status b = Some ''completed'' \<and> completedDate t1 = None
        then t1\<lparr> completedDate := Some now \<rparr> else t1)"

text \<open>The room update that follows the save of a task.\<close>

definition roomAfterTask :: "(objectId \<rightharpoonup> room) \<Rightarrow> housekeeping \<Rightarrow> (objectId \<rightharpoonup> room)" where
  "roomAfterTask rs task =
    (if hk_status task = ''completed'' \<and> taskType task = ''cleaning''
     then (case rs (hk_roomId task) of
             None \<Rightarrow> rs
           | Some room \<Rightarrow>
               if room_status room = ''cleaning''
               then rs(hk_roomId task \<mapsto> room\<lparr> room_status := ''available'' \<rparr>)
               else rs)
     else rs)"

definition updateTask ::
  "db \<Rightarrow> user \<Rightarrow> objectId \<Rightarrow> task_body \<Rightarrow> int \<Rightarrow> housekeeping response \<times> db" where
  "updateTask st u i b now =
    (case findById hk_id i (tasks st) of
       None \<Rightarrow> (Failure 404 (Text ''Task not found''), st)
     | Some task \<Rightarrow>
       if role u = ''housekeeping'' \<and> hk_assignedTo task \<noteq> None \<and>
          hk_assignedTo task \<noteq> Some (user_id u)
       then (Failure 403 (Text ''Not authorized to update this task''), st)
       else
         let t1 = (if role u = ''housekeeping'' then staffUpdate task b now
                   else managerUpdate task b now);
             task' = t1\<lparr> hk_updatedAt := now \<rparr>
         in if \<not> housekeepingValid task' then (ServerError, st)
            else (Success 200 task',
                  st\<lparr> tasks := save hk_id task' (tasks st),
                      rooms := roomAfterTask (rooms st) task' \<rparr>))"

section \<open>Maintenance requests\<close>

text \<open>The validators of the Maintenance schema.\<close>

definition nonNegative :: "real option \<Rightarrow> bool" where
  "nonNegative c = (case c of None \<Rightarrow> True | Some v \<Rightarrow> 0 \<le> v)"

definition maintenanceValid :: "maintenance \<Rightarrow> bool" where
  "maintenanceValid m =
    (issueType m \<in> set [''plumbing'', ''electrical'', ''hvac'', ''furniture'', ''appliance'', ''other''] \<and>
     description m \<noteq> [] \<and>
     mt_status m \<in> set [''reported'', ''assigned'', ''in-progress'', ''resolved'', ''cancelled''] \<and>
     mt_priority m \<in> set [''low'', ''medium'', ''high'', ''urgent''] \<and>
     nonNegative (estimatedCost m) \<and> nonNegative (actualCost m))"

subsection \<open>createRequest\<close>

record request_body =
  rb_roomId :: "objectId option"
  rb_issueType :: "string option"
  rb_description :: "utf16 option"
  rb_priority :: "string option"

text \<open>
  \<open>Maintenance.create\<close>: the document with the schema's defaults, validated. A
  required string that is missing fails its validator, as the empty string does.
  A body without \<open>roomId\<close> makes \<open>Room.findById(undefined)\<close> answer null.
\<close>

definition newRequest :: "db \<Rightarrow> user \<Rightarrow> objectId \<Rightarrow> request_body \<Rightarrow> int \<Rightarrow> maintenance" where
  "newRequest st u rid b now =
    \<lparr> mt_id = freshId (map mt_id (requests st)),
      mt_roomId = rid,
      reportedBy = user_id u,
      issueType = (case rb_issueType b of Some v \<Rightarrow> v | None \<Rightarrow> []),
      description = (case rb_description b of Some v \<Rightarrow> trim v | None \<Rightarrow> []),
      mt_status = ''reported'',
      mt_priority = (if truthy (rb_priority b) then the (rb_priority b) else ''medium''),
      mt_assignedTo = None,
      estimatedCost = None,
      actualCost = None,
      reportedAt = now,
      resolvedAt = None,
      mt_notes = None \<rparr>"

definition createRequest ::
  "db \<Rightarrow> user \<Rightarrow> request_body \<Rightarrow> int \<Rightarrow> maintenance response \<times> db" where
  "createRequest st u b now =
    (case rb_roomId b of
       None \<Rightarrow> (Failure 404 (Text ''Room not found''), st)
     | Some rid \<Rightarrow>
      (case rooms st rid of
         None \<Rightarrow> (Failure 404 (Text ''Room not found''), st)
       | Some room \<Rightarrow>
         let request = newRequest st u rid b now
         in if \<not> maintenanceValid request then (ServerError, st)
            else
              let st1 = st\<lparr> requests := requests st @ [request] \<rparr>
              in if rb_priority b = Some ''urgent''
                 then (Success 201 request,
                       st1\<lparr> rooms := (rooms st)(rid \<mapsto> room\<lparr> room_status := ''maintenance'' \<rparr>) \<rparr>)
                 else (Success 201 request, st1)))"

subsection \<open>updateRequest\<close>

record request_update =
  ru_status :: "string option"
  ru_assignedTo :: "objectId option"
  ru_priority :: "string option"
  ru_estimatedCost :: "real option"
  ru_actualCost :: "real option"
  ru_notes :: "utf16 option"

text \<open>The gate under the comment \<open>Only admin/manager can assign and update status\<close>.\<close>

definition statusGate :: "user \<Rightarrow> request_update \<Rightarrow> bool" where
  "statusGate u b =
    ((case ru_status b of
        None \<Rightarrow> False
      | Some s \<Rightarrow> s \<in> set [''assigned'', ''in-progress'', ''resolved'', ''cancelled'']) \<and>
     role u \<notin> set [''admin'', ''manager''])"

text \<open>The block under the comment \<open>Update fields\<close>.\<close>

definition applyRequestUpdate :: "maintenance \<Rightarrow> request_update \<Rightarrow> maintenance" where
  "applyRequestUpdate request b =
    (let r1 = (if truthy (ru_status b) then request\<lparr> mt_status := the (ru_status b) \<rparr> else request);
         r2 = (if ru_assignedTo b \<noteq> None then r1\<lparr> mt_assignedTo := ru_assignedTo b \<rparr> else r1);
         r3 = (if truthy (ru_priority b) then r2\<lparr> mt_priority := the (ru_priority b) \<rparr> else r2);
         r4 = (if ru_estimatedCost b \<noteq> None then r3\<lparr> estimatedCost := ru_estimatedCost b \<rparr> else r3);
         r5 = (if ru_actualCost b \<noteq> None then r4\<lparr> actualCost := ru_actualCost b \<rparr> else r4)
     in if truthy (ru_notes b) then r5\<lparr> mt_notes := Some (trim (the (ru_notes b))) \<rparr> else r5)"

text \<open>
  On \<open>resolved\<close> the room is saved before the request is: a request that then fails
  its validators leaves the room's new status behind.
\<close>

definition updateRequest ::
  "db \<Rightarrow> user \<Rightarrow> objectId \<Rightarrow> request_update \<Rightarrow> int \<Rightarrow> maintenance response \<times> db" where
  "updateRequest st u i b now =
    (case findById mt_id i (requests st) of
       None \<Rightarrow> (Failure 404 (Text ''Maintenance request not found''), st)
     | Some request \<Rightarrow>
       if statusGate u b
       then (Failure 403 (Text ''Only admin/manager can update status''), st)
       else
         let r1 = applyRequestUpdate request b;
             request' = (if ru_status b = Some ''resolved'' then r1\<lparr> resolvedAt := Some now \<rparr> else r1);
             rooms' = (if ru_status b = Some ''resolved''
                       then (case rooms st (mt_roomId request') of
                               None \<Rightarrow> rooms st
                             | Some room \<Rightarrow>
                                 if room_status room = ''maintenance''
                                 then (rooms st)(mt_roomId request' \<mapsto>
                                                  room\<lparr> room_status := ''available'' \<rparr>)
                                 else rooms st)
                       else rooms st)
         in if \<not> maintenanceValid request' then (ServerError, st\<lparr> rooms := rooms' \<rparr>)
            else (Success 200 request',
                  st\<lparr> requests := save mt_id request' (requests st), rooms := rooms' \<rparr>))"

section \<open>Example data\<close>

text \<open>
  The time value of midnight (UTC) on a day of March 2024, and the states and
  requests the examples below run on. \<open>acceptAll\<close> is a Reservation schema whose
  validators accept every document.
\<close>

definition march2024 :: "int \<Rightarrow> int" where
  "march2024 d = 1709251200000 + (d - 1) * 86400000"

definition acceptAll :: "reservation \<Rightarrow> bool" where
  "acceptAll r = True"

definition demoRoom :: room where
  "demoRoom = \<lparr> room_status = ''available'', maxOccupancy = 2, pricePerNight = 100 \<rparr>"

definition emptyDb :: db where
  "emptyDb = \<lparr> rooms = [7 \<mapsto> demoRoom], reservations = [], tasks = [], requests = [] \<rparr>"

definition guestUser :: user where
  "guestUser = \<lparr> user_id = 42, role = ''guest'' \<rparr>"

definition marchBody :: reservation_body where
  "marchBody = \<lparr> b_roomId = Some 7, b_checkInDate = Parsed (march2024 10),
     b_checkOutDate = Parsed (march2024 13), b_numberOfGuests = Some 2,
     b_specialRequests = None, b_bookingSource = None, b_guestId = Some 99 \<rparr>"

definition marchStay :: reservation where
  "marchStay = \<lparr> res_id = 1, guestId = 42, roomId = 7,
     checkInDate = march2024 10, checkOutDate = march2024 13, numberOfGuests = Some 2,
     totalAmount = Finite 300, specialRequests = None, bookingSource = ''online'',
     res_status = ''confirmed'', res_updatedAt = None \<rparr>"

definition stayA :: reservation where
  "stayA = \<lparr> res_id = 1, guestId = 42, roomId = 7,
     checkInDate = march2024 10, checkOutDate = march2024 15, numberOfGuests = Some 2,
     totalAmount = Finite 500, specialRequests = None, bookingSource = ''online'',
     res_status = ''confirmed'', res_updatedAt = None \<rparr>"

definition stayBefore :: reservation where
  "stayBefore = \<lparr> res_id = 1, guestId = 77, roomId = 7,
     checkInDate = march2024 5, checkOutDate = march2024 10, numberOfGuests = Some 1,
     totalAmount = Finite 500, specialRequests = None, bookingSource = ''online'',
     res_status = ''confirmed'', res_updatedAt = None \<rparr>"

definition checkedInStay :: reservation where
  "checkedInStay = stayA\<lparr> res_status := ''checked-in'' \<rparr>"

definition cancelBody :: reservation_update where
  "cancelBody = \<lparr> u_status = Some ''cancelled'', u_specialRequests = None \<rparr>"

definition otherGuest :: user where
  "otherGuest = \<lparr> user_id = 43, role = ''guest'' \<rparr>"

definition receptionist :: user where
  "receptionist = \<lparr> user_id = 3, role = ''receptionist'' \<rparr>"

definition dbWith :: "reservation \<Rightarrow> db" where
  "dbWith r = emptyDb\<lparr> reservations := [r] \<rparr>"

definition cleaningTask :: housekeeping where
  "cleaningTask = \<lparr> hk_id = 1, hk_roomId = 7, hk_assignedTo = Some 8, taskType = ''cleaning'',
     hk_status = ''in-progress'', scheduledDate = march2024 13, completedDate = None,
     hk_notes = None, hk_priority = ''medium'', hk_createdAt = march2024 12,
     hk_updatedAt = march2024 12 \<rparr>"

definition housekeeper :: user where
  "housekeeper = \<lparr> user_id = 8, role = ''housekeeping'' \<rparr>"

definition completeBody :: task_body where
  "completeBody = \<lparr> tb_roomId = None, tb_assignedTo = None, tb_taskType = None,
     tb_status = Some ''completed'', tb_scheduledDate = None, tb_completedDate = None,
     tb_notes = None, tb_priority = None, tb_createdAt = None, tb_updatedAt = None \<rparr>"

definition completedTask :: housekeeping where
  "completedTask = cleaningTask\<lparr> hk_status := ''completed'',
     completedDate := Some (march2024 14), hk_updatedAt := march2024 14 \<rparr>"

definition taskDb :: "string \<Rightarrow> db" where
  "taskDb s = \<lparr> rooms = [7 \<mapsto> demoRoom\<lparr> room_status := s \<rparr>], reservations = [],
     tasks = [cleaningTask], requests = [] \<rparr>"

text \<open>
  The description of the example request is the word Leak between a no-break space
  (U+00A0) and a space; the stored description is the word alone.
\<close>

definition leakBody :: "string \<Rightarrow> request_body" where
  "leakBody p = \<lparr> rb_roomId = Some 7, rb_issueType = Some ''plumbing'',
     rb_description = Some [0x00A0, 0x004C, 0x0065, 0x0061, 0x006B, 0x0020],
     rb_priority = Some p \<rparr>"

definition leak :: "string \<Rightarrow> maintenance" where
  "leak p = \<lparr> mt_id = 1, mt_roomId = 7, reportedBy = 42, issueType = ''plumbing'',
     description = [0x004C, 0x0065, 0x0061, 0x006B], mt_status = ''reported'', mt_priority = p,
     mt_assignedTo = None, estimatedCost = None, actualCost = None,
     reportedAt = march2024 14, resolvedAt = None, mt_notes = None \<rparr>"

definition blankBody :: request_body where
  "blankBody = \<lparr> rb_roomId = Some 7, rb_issueType = Some ''plumbing'',
     rb_description = Some [0x00A0], rb_priority = Some ''urgent'' \<rparr>"

definition roomDb :: "string \<Rightarrow> db" where
  "roomDb s = \<lparr> rooms = [7 \<mapsto> demoRoom\<lparr> room_status := s \<rparr>], reservations = [],
     tasks = [], requests = [] \<rparr>"

definition leakDb :: db where
  "leakDb = \<lparr> rooms = [7 \<mapsto> demoRoom], reservations = [], tasks = [],
     requests = [leak ''high''] \<rparr>"

text \<open>The notes of the example update are the word ok between two no-break spaces.\<close>

definition priorityBody :: request_update where
  "priorityBody = \<lparr> ru_status = None, ru_assignedTo = None, ru_priority = Some ''low'',
     ru_estimatedCost = Some 0, ru_actualCost = None,
     ru_notes = Some [0x00A0, 0x006F, 0x006B, 0x00A0] \<rparr>"

text \<open>
  A room whose price is the double nearest to 99.99, and a request for 10 to 13 March
  that names no number of guests.
\<close>

definition pricedRoom :: room where
  "pricedRoom = \<lparr> room_status = ''available'', maxOccupancy = 2,
     pricePerNight = 7036170730324623 / 2 ^ 46 \<rparr>"

definition pricedDb :: db where
  "pricedDb = \<lparr> rooms = [7 \<mapsto> pricedRoom], reservations = [], tasks = [], requests = [] \<rparr>"

definition noGuestsBody :: reservation_body where
  "noGuestsBody = marchBody\<lparr> b_numberOfGuests := None \<rparr>"

definition resolveBody :: request_update where
  "resolveBody = \<lparr> ru_status = Some ''resolved'', ru_assignedTo = None, ru_priority = None,
     ru_estimatedCost = None, ru_actualCost = None, ru_notes = None \<rparr>"

section \<open>Rounding to a double\<close>

text \<open>
  The doubles around \<open>x\<close> are the multiples of \<open>2 ^ q\<close> where \<open>q\<close> is fixed by
  the binade of \<open>x\<close>; every integer of magnitude at most \<open>2 ^ 53\<close> is a double.
\<close>

lemma round_half_even_of_int [simp]: "round_half_even (of_int k) = k"
  by (simp add: round_half_even_def)

lemma floor_log2_eq:
  assumes "2 powi e \<le> x" and "x < 2 powi (e + 1)"
  shows "\<lfloor>log 2 x\<rfloor> = e"
proof -
  have "0 < x" using assms(1) by (smt (verit) zero_less_power_int)
  moreover have "(2::real) powr (of_int e) = 2 powi e" by (simp add: powr_real_of_int')
  moreover have "(2::real) powr (of_int e + 1) = 2 powi (e + 1)"
    using powr_real_of_int' [of 2 "e + 1"] by simp
  ultimately show ?thesis
    using assms floor_log_eq_powr_iff [of x 2 e] by simp
qed

lemma quantum_eq:
  assumes "2 powi e \<le> \<bar>x\<bar>" and "\<bar>x\<bar> < 2 powi (e + 1)"
  shows "quantum x = max (e - 52) (- 1074)"
  using floor_log2_eq [OF assms] by (simp add: quantum_def)

lemma floor_log2_bounds:
  assumes "0 < x"
  shows "2 powi \<lfloor>log 2 x\<rfloor> \<le> x \<and> x < 2 powi (\<lfloor>log 2 x\<rfloor> + 1)"
proof -
  have "(2::real) powr (of_int \<lfloor>log 2 x\<rfloor>) = 2 powi \<lfloor>log 2 x\<rfloor>" by (simp add: powr_real_of_int')
  moreover have "(2::real) powr (of_int \<lfloor>log 2 x\<rfloor> + 1) = 2 powi (\<lfloor>log 2 x\<rfloor> + 1)"
    using powr_real_of_int' [of 2 "\<lfloor>log 2 x\<rfloor> + 1"] by simp
  ultimately show ?thesis
    using assms floor_log_eq_powr_iff [of x 2 "\<lfloor>log 2 x\<rfloor>"] by simp
qed

lemma round_half_even_numeral [simp]:
  "round_half_even (numeral k) = numeral k" "round_half_even (- numeral k) = - numeral k"
  using round_half_even_of_int [of "numeral k"] round_half_even_of_int [of "- numeral k"]
  by simp_all

lemma round64r_eval:
  assumes "x \<noteq> 0" and "2 powi e \<le> \<bar>x\<bar>" and "\<bar>x\<bar> < 2 powi (e + 1)"
  shows "round64r x = of_int (round_half_even (x / 2 powi max (e - 52) (- 1074))) *
           2 powi max (e - 52) (- 1074)"
  using assms(1) quantum_eq [OF assms(2,3)] by (simp add: round64r_def)

lemma round64r_of_int:
  assumes "\<bar>n\<bar> \<le> 2 ^ 53"
  shows "round64r (of_int n) = of_int n"
proof (cases "n = 0")
  case True
  then show ?thesis by (simp add: round64r_def)
next
  case False
  define x :: real where "x = of_int n"
  define e where "e = \<lfloor>log 2 \<bar>x\<bar>\<rfloor>"
  have x0: "x \<noteq> 0" using False by (simp add: x_def)
  have xpos: "1 \<le> \<bar>x\<bar>" using False by (simp add: x_def)
  have "real_of_int \<bar>n\<bar> \<le> real_of_int (2 ^ 53)" using assms by (simp only: of_int_le_iff)
  then have xle: "\<bar>x\<bar> \<le> 2 ^ 53" by (simp add: x_def)
  have b: "2 powi e \<le> \<bar>x\<bar>" "\<bar>x\<bar> < 2 powi (e + 1)"
    using floor_log2_bounds [of "\<bar>x\<bar>"] xpos unfolding e_def by auto
  have e0: "0 \<le> e"
  proof (rule ccontr)
    assume "\<not> 0 \<le> e"
    then have "e + 1 \<le> 0" by simp
    then have "(2::real) powi (e + 1) \<le> 2 powi 0" by (intro power_int_increasing) auto
    then show False using b(2) xpos by simp
  qed
  have e53: "e \<le> 53"
  proof (rule ccontr)
    assume "\<not> e \<le> 53"
    then have "53 < e" by simp
    then have "(2::real) powi 53 < 2 powi e" by (intro power_int_strict_increasing) auto
    then show False using b(1) xle by simp
  qed
  have r: "round64r x = of_int (round_half_even (x / 2 powi (e - 52))) * 2 powi (e - 52)"
    using round64r_eval [OF x0 b] e0 by (simp add: max_def)
  show ?thesis
  proof (cases "e \<le> 52")
    case True
    define k where "k = nat (52 - e)"
    have "(2::real) powi (- (52 - e)) = 1 / 2 powi (52 - e)" by (rule power_int_minus_divide)
    moreover have "(2::real) powi (52 - e) = 2 ^ k"
      using True by (simp add: k_def power_int_nonneg_exp)
    ultimately have p: "(2::real) powi (e - 52) = 1 / 2 ^ k" by simp
    have "x / 2 powi (e - 52) = of_int (n * 2 ^ k)" by (simp add: p x_def)
    then have "round_half_even (x / 2 powi (e - 52)) = n * 2 ^ k"
      by (simp only: round_half_even_of_int)
    then have "round64r x = x" using r p by (simp add: x_def)
    then show ?thesis by (simp add: x_def)
  next
    case False
    then have e: "e = 53" using e53 by simp
    then have "\<bar>x\<bar> = 2 ^ 53" using b(1) xle by simp
    then have "x = 2 ^ 53 \<or> x = - (2 ^ 53)" by (auto simp: abs_if split: if_splits)
    then have "round64r x = x" using r e by auto
    then show ?thesis by (simp add: x_def)
  qed
qed

lemma round64_of_int:
  assumes "\<bar>n\<bar> \<le> 2 ^ 53"
  shows "round64 (of_int n) = Finite (of_int n)"
proof -
  have "real_of_int \<bar>n\<bar> \<le> real_of_int (2 ^ 53)" using assms by (simp only: of_int_le_iff)
  then have "\<bar>real_of_int n\<bar> \<le> 2 ^ 53" by simp
  moreover have "(2::real) ^ 53 < 2 ^ 1024" by simp
  ultimately have "\<bar>real_of_int n\<bar> < 2 ^ 1024" by linarith
  then show ?thesis using round64r_of_int [OF assms] by (auto simp: round64_def Let_def)
qed

lemma nights_whole_days:
  assumes "cout - cin = k * 86400000" and "\<bar>k * 86400000\<bar> \<le> 2 ^ 53"
  shows "nights cin cout = k"
proof -
  have "\<bar>k\<bar> \<le> \<bar>k * 86400000\<bar>" by (simp add: abs_mult)
  then have k: "\<bar>k\<bar> \<le> 2 ^ 53" using assms(2) by linarith
  have "round64r (real_of_int (cout - cin)) = real_of_int (k * 86400000)"
    using round64r_of_int [OF assms(2)] assms(1) by simp
  then have "round64r (real_of_int (cout - cin)) / 86400000 = real_of_int k" by simp
  then show ?thesis using round64r_of_int [OF k] by (simp add: nights_def)
qed

lemma nights_march: "nights 1710028800000 1710288000000 = 3"
  by (rule nights_whole_days) simp_all

lemma round64_300: "round64 300 = Finite 300"
  using round64_of_int [of 300] by simp

lemma isDouble_100: "isDouble 100"
  using round64_of_int [of 100] by (simp add: isDouble_def)

lemma pricedRoom_double: "isDouble (7036170730324623 / 2 ^ 46)"
  using round64r_eval [where x = "7036170730324623 / 2 ^ 46" and e = 6]
  by (simp add: isDouble_def round64_def Let_def round_half_even_def)

lemma pricedRoom_three_nights:
  "round64 (7036170730324623 / 2 ^ 46 * 3) = Finite (5277128047743467 / 2 ^ 44)"
  using round64r_eval [where x = "7036170730324623 / 2 ^ 46 * 3" and e = 8]
  by (simp add: round64_def Let_def round_half_even_def)

text \<open>
  Above \<open>2 ^ 53\<close> the difference of two time values is rounded before it is divided:
  from the earliest date to one millisecond past 864000000000000 the exact quotient
  has 110000001 as its ceiling, and the doubles give 110000000.
\<close>

lemma nights_rounded_difference:
  "nights (- 8640000000000000) 864000000000001 = 110000000"
proof -
  have "round64r 9504000000000001 = 9504000000000000"
    using round64r_eval [where x = 9504000000000001 and e = 53]
    by (simp add: round_half_even_def)
  moreover have "round64r 110000000 = 110000000"
    using round64r_of_int [of 110000000] by simp
  ultimately show ?thesis by (simp add: nights_def)
qed

section \<open>Unfolding the examples\<close>

lemmas demo_defs = march2024_def acceptAll_def demoRoom_def emptyDb_def guestUser_def
  marchBody_def marchStay_def stayA_def stayBefore_def checkedInStay_def cancelBody_def
  dbWith_def otherGuest_def receptionist_def pricedRoom_def pricedDb_def noGuestsBody_def

lemmas create_defs = createReservation_def newReservation_def js_gt_def conflictingReservation_def
  conflictQuery_def conflictClauses_def blocking_def nights_march round64_300 truthy_def
  freshId_def defaultReservationStatus_def Let_def

lemma foldr_max_upper: "x \<in> set ids \<Longrightarrow> x \<le> foldr max ids (0::nat)"
  by (induction ids) auto

lemma freshId_fresh: "freshId ids \<notin> set ids"
  using foldr_max_upper [of "freshId ids" ids] by (auto simp: freshId_def)

section \<open>The conflict check and the overlap rule\<close>

lemma conflictClauses_iff_overlap:
  assumes "checkInDate e < checkOutDate e" and "cin < cout"
  shows "conflictClauses cin cout e = spec_overlap (checkInDate e) (checkOutDate e) cin cout"
  using assms unfolding conflictClauses_def spec_overlap_def by auto

text \<open>
  C1. When the blocking reservations (confirmed or checked-in) of the room satisfy
  \<open>checkInDate < checkOutDate\<close>, and the candidate interval has
  \<open>checkIn < checkOut\<close>, the conflict query of reservation creation finds a
  reservation if and only if some blocking reservation of the room overlaps the
  candidate by the half-open rule:
  \<open>existing.checkInDate < checkOut\<close> and \<open>existing.checkOutDate > checkIn\<close>.
\<close>

theorem conflict_check_iff_overlap:
  assumes "list_all (\<lambda>e. roomId e = rid \<and> blocking e \<longrightarrow> checkInDate e < checkOutDate e) rs"
    and "cin < cout"
  shows "(conflictingReservation rs rid cin cout \<noteq> None) =
         (\<exists>e \<in> set rs. roomId e = rid \<and> blocking e \<and>
            spec_overlap (checkInDate e) (checkOutDate e) cin cout)"
proof -
  have "(conflictingReservation rs rid cin cout \<noteq> None) =
        (\<exists>e \<in> set rs. conflictQuery rid cin cout e)"
    unfolding conflictingReservation_def by (auto simp: find_None_iff)
  also have "\<dots> = (\<exists>e \<in> set rs. roomId e = rid \<and> blocking e \<and>
            spec_overlap (checkInDate e) (checkOutDate e) cin cout)"
    using assms conflictClauses_iff_overlap
    by (auto simp: conflictQuery_def list_all_iff)
  finally show ?thesis .
qed

text \<open>
  For a request that reaches the query, the overlap refusal is the answer exactly when
  the query finds a reservation.
\<close>

lemma createReservation_refusal_iff:
  assumes "b_roomId b = Some rid" and "b_checkInDate b = Parsed cin"
    and "b_checkOutDate b = Parsed cout" and "cin < cout"
    and "rooms st rid = Some room" and "\<not> js_gt (b_numberOfGuests b) (maxOccupancy room)"
  shows "(fst (createReservation accepts st u b) =
            Failure 400 (Text ''Room is not available for the selected dates'')) =
         (conflictingReservation (reservations st) rid cin cout \<noteq> None)"
  using assms unfolding createReservation_def Let_def
  by (auto split: option.splits)

text \<open>
  The example P3 of the specification: a stay of 10 to 15 March blocks a request for
  12 to 14 March.
\<close>

theorem conflict_check_iff_overlap_witness:
  "checkInDate stayA < checkOutDate stayA \<and> march2024 12 < march2024 14 \<and>
   conflictingReservation [stayA] 7 (march2024 12) (march2024 14) = Some stayA \<and>
   spec_overlap (checkInDate stayA) (checkOutDate stayA) (march2024 12) (march2024 14)"
  using conflict_check_iff_overlap [where rs = "[stayA]" and rid = 7
      and cin = "march2024 12" and cout = "march2024 14"]
  by (simp add: demo_defs conflictingReservation_def conflictQuery_def conflictClauses_def
      blocking_def spec_overlap_def)

section \<open>Billing\<close>

text \<open>
  The total is computed in doubles, so it is not the exact product: at the double
  nearest to 99.99 a night, three nights cost 299.96999999999997, which is not three
  times the price.
\<close>

theorem totalAmount_rounded_counterexample:
  "isDouble (pricePerNight pricedRoom) \<and>
   fst (createReservation acceptAll pricedDb guestUser marchBody) =
     Success 201 (marchStay\<lparr> totalAmount := Finite (5277128047743467 / 2 ^ 44) \<rparr>) \<and>
   nights (march2024 10) (march2024 13) = 3 \<and>
   5277128047743467 / 2 ^ 44 \<noteq> 3 * pricePerNight pricedRoom"
  using pricedRoom_double pricedRoom_three_nights
  by (simp add: demo_defs create_defs)

text \<open>
  C3, as amended. Every reservation that \<open>createReservation\<close> creates has as its
  \<open>totalAmount\<close> the double product of the price of its room and \<open>nights\<close>: the
  product rounded to the nearest double, an infinity on overflow. \<open>nights\<close> is the
  ceiling of the double quotient of the stay's length, \<open>checkOut - checkIn\<close> as a
  double, by one day (86400 seconds, 86400000 milliseconds). When the stay is a whole
  number \<open>k\<close> of days of at most \<open>2 ^ 53\<close> milliseconds and the price is an integer
  \<open>p\<close> with \<open>\<bar>p * k\<bar> \<le> 2 ^ 53\<close>, no rounding occurs: \<open>nights = k\<close> and
  \<open>totalAmount = k * p\<close>.
\<close>

theorem createReservation_totalAmount:
  assumes "createReservation accepts st u b = (Success c r, st')"
  shows "\<exists>room. rooms st (roomId r) = Some room \<and>
           b_checkInDate b = Parsed (checkInDate r) \<and> b_checkOutDate b = Parsed (checkOutDate r) \<and>
           nights (checkInDate r) (checkOutDate r) =
             \<lceil>round64r (round64r (real_of_int (checkOutDate r - checkInDate r)) / 86400000)\<rceil> \<and>
           totalAmount r =
             round64 (pricePerNight room * of_int (nights (checkInDate r) (checkOutDate r))) \<and>
           (\<forall>k p. checkOutDate r - checkInDate r = k * 86400000 \<and> k * 86400000 \<le> 2 ^ 53 \<and>
                  pricePerNight room = of_int p \<and> \<bar>p * k\<bar> \<le> 2 ^ 53 \<longrightarrow>
                  nights (checkInDate r) (checkOutDate r) = k \<and>
                  totalAmount r = Finite (of_int (k * p)))"
proof -
  have "\<exists>room. rooms st (roomId r) = Some room \<and>
      b_checkInDate b = Parsed (checkInDate r) \<and> b_checkOutDate b = Parsed (checkOutDate r) \<and>
      checkInDate r < checkOutDate r \<and>
      totalAmount r =
        round64 (pricePerNight room * of_int (nights (checkInDate r) (checkOutDate r)))"
    using assms unfolding createReservation_def newReservation_def Let_def
    by (auto split: option.splits if_splits date_field.splits elim: getTime.elims)
  then obtain room where room: "rooms st (roomId r) = Some room"
    and dates: "b_checkInDate b = Parsed (checkInDate r)" "b_checkOutDate b = Parsed (checkOutDate r)"
    and order: "checkInDate r < checkOutDate r"
    and total: "totalAmount r =
      round64 (pricePerNight room * of_int (nights (checkInDate r) (checkOutDate r)))"
    by blast
  have whole: "nights (checkInDate r) (checkOutDate r) = k \<and> totalAmount r = Finite (of_int (k * p))"
    if h: "checkOutDate r - checkInDate r = k * 86400000 \<and> k * 86400000 \<le> 2 ^ 53 \<and>
           pricePerNight room = of_int p \<and> \<bar>p * k\<bar> \<le> 2 ^ 53" for k p
  proof -
    have "0 < k * 86400000" using h order by linarith
    then have "\<bar>k * 86400000\<bar> \<le> 2 ^ 53" using h by simp
    then have n: "nights (checkInDate r) (checkOutDate r) = k"
      using nights_whole_days h by blast
    have "\<bar>k * p\<bar> \<le> 2 ^ 53" using h by (simp add: mult.commute)
    then have "round64 (real_of_int (k * p)) = Finite (real_of_int (k * p))"
      by (rule round64_of_int)
    then show ?thesis using n total h by (simp add: mult.commute)
  qed
  show ?thesis
    using room dates total whole by (auto simp: nights_def)
qed

text \<open>
  The example P6 of the specification: 10 to 13 March at 100 a night is 3 nights and
  a total of 300.
\<close>

theorem createReservation_totalAmount_witness:
  "fst (createReservation acceptAll emptyDb guestUser marchBody) = Success 201 marchStay \<and>
   nights (march2024 10) (march2024 13) = 3 \<and> pricePerNight demoRoom = 100 \<and>
   isDouble (pricePerNight demoRoom) \<and> totalAmount marchStay = Finite 300"
  using createReservation_totalAmount [where accepts = acceptAll and st = emptyDb
      and u = guestUser and b = marchBody and c = 201 and r = marchStay
      and st' = "snd (createReservation acceptAll emptyDb guestUser marchBody)"]
    isDouble_100
  by (simp add: demo_defs create_defs)

section \<open>Back-to-back stays\<close>

text \<open>
  The stored reservations keep \<open>checkInDate < checkOutDate\<close>: creation refuses any
  other interval, and no handler writes a date afterwards.
\<close>

lemma createReservation_keeps_order:
  assumes "list_all (\<lambda>e. checkInDate e < checkOutDate e) (reservations st)"
  shows "list_all (\<lambda>e. checkInDate e < checkOutDate e)
           (reservations (snd (createReservation accepts st u b)))"
  using assms unfolding createReservation_def newReservation_def Let_def
  by (auto split: option.splits)

lemma save_keeps_order:
  assumes "list_all (\<lambda>e. checkInDate e < checkOutDate e) rs"
    and "findById res_id i rs = Some r"
    and "checkInDate r' = checkInDate r" and "checkOutDate r' = checkOutDate r"
  shows "list_all (\<lambda>e. checkInDate e < checkOutDate e) (save res_id r' rs)"
proof -
  have "r \<in> set rs"
    using assms(2) unfolding findById_def by (auto simp: find_Some_iff)
  then have "checkInDate r' < checkOutDate r'"
    using assms(1,3,4) by (auto simp: list_all_iff)
  then show ?thesis
    using assms(1) unfolding save_def by (auto simp: list_all_iff)
qed

lemma checkOut_keeps_order:
  assumes "list_all (\<lambda>e. checkInDate e < checkOutDate e) (reservations st)"
  shows "list_all (\<lambda>e. checkInDate e < checkOutDate e)
           (reservations (snd (checkOut accepts st i now)))"
  using assms save_keeps_order [OF assms] unfolding checkOut_def Let_def
  by (auto split: option.splits)

lemma checkIn_keeps_order:
  assumes "list_all (\<lambda>e. checkInDate e < checkOutDate e) (reservations st)"
  shows "list_all (\<lambda>e. checkInDate e < checkOutDate e)
           (reservations (snd (checkIn accepts st i now)))"
  using assms save_keeps_order [OF assms] unfolding checkIn_def Let_def
  by (auto split: option.splits)

lemma updateReservation_keeps_order:
  assumes "list_all (\<lambda>e. checkInDate e < checkOutDate e) (reservations st)"
  shows "list_all (\<lambda>e. checkInDate e < checkOutDate e)
           (reservations (snd (updateReservation accepts st u i b now)))"
  using assms save_keeps_order [OF assms] unfolding updateReservation_def Let_def
  by (auto split: option.splits simp: applyReservationUpdate_def)

lemma adjacent_not_matched:
  assumes "checkInDate e < checkOutDate e" and "cin < cout"
    and "checkOutDate e = cin \<or> checkInDate e = cout"
  shows "\<not> conflictClauses cin cout e"
  using assms unfolding conflictClauses_def by auto

text \<open>
  C5. Back-to-back stays do not conflict. When every blocking reservation of the room
  ends where the candidate interval starts, or starts where it ends, the conflict query
  finds nothing and \<open>createReservation\<close> does not answer with the overlap refusal.
  The stored reservations satisfy \<open>checkInDate < checkOutDate\<close>, as shown above.
\<close>

theorem back_to_back_no_conflict:
  assumes "b_roomId b = Some rid" and "b_checkInDate b = Parsed cin"
    and "b_checkOutDate b = Parsed cout" and "cin < cout"
    and "list_all (\<lambda>e. roomId e = rid \<and> blocking e \<longrightarrow>
            checkInDate e < checkOutDate e \<and> (checkOutDate e = cin \<or> checkInDate e = cout))
          (reservations st)"
  shows "conflictingReservation (reservations st) rid cin cout = None \<and>
         fst (createReservation accepts st u b) \<noteq>
           Failure 400 (Text ''Room is not available for the selected dates'')"
proof -
  have none: "conflictingReservation (reservations st) rid cin cout = None"
    unfolding conflictingReservation_def find_None_iff
    using assms(4,5) adjacent_not_matched
    by (auto simp: conflictQuery_def list_all_iff)
  then show ?thesis
    using assms(1-4) unfolding createReservation_def Let_def
    by (auto split: option.splits)
qed

text \<open>
  The example P2 of the specification: after a stay that ends on 10 March, a stay that
  starts on 10 March is created.
\<close>

theorem back_to_back_no_conflict_witness:
  "march2024 10 < march2024 13 \<and> checkOutDate stayBefore = march2024 10 \<and>
   conflictingReservation (reservations (dbWith stayBefore)) 7 (march2024 10) (march2024 13) = None \<and>
   fst (createReservation acceptAll (dbWith stayBefore) guestUser marchBody) =
     Success 201 (marchStay\<lparr> res_id := 2 \<rparr>)"
  using back_to_back_no_conflict [where b = marchBody and rid = 7 and cin = "march2024 10"
      and cout = "march2024 13" and st = "dbWith stayBefore" and accepts = acceptAll
      and u = guestUser]
  by (simp add: demo_defs create_defs)

section \<open>The guest of a new reservation\<close>

text \<open>
  C9. A reservation created by a caller of role guest belongs to the caller: its
  \<open>guestId\<close> is the caller's id, and two requests that differ only in the body's
  \<open>guestId\<close> have the same response and leave the same state.
\<close>

theorem createReservation_guest_own_id:
  assumes "role u = ''guest''"
  shows "createReservation accepts st u (b\<lparr> b_guestId := g1 \<rparr>) =
           createReservation accepts st u (b\<lparr> b_guestId := g2 \<rparr>) \<and>
         (\<forall>c r st'. createReservation accepts st u b = (Success c r, st') \<longrightarrow>
            guestId r = user_id u)"
  using assms unfolding createReservation_def newReservation_def Let_def
  by (auto split: option.splits if_splits)

theorem createReservation_guest_own_id_witness:
  "role guestUser = ''guest'' \<and> b_guestId marchBody = Some 99 \<and>
   fst (createReservation acceptAll emptyDb guestUser marchBody) = Success 201 marchStay \<and>
   guestId marchStay = user_id guestUser \<and>
   createReservation acceptAll emptyDb guestUser (marchBody\<lparr> b_guestId := Some 5 \<rparr>) =
     createReservation acceptAll emptyDb guestUser (marchBody\<lparr> b_guestId := None \<rparr>)"
  using createReservation_guest_own_id [where u = guestUser and accepts = acceptAll
      and st = emptyDb and b = marchBody and ?g1.0 = "Some 5" and ?g2.0 = None]
  by (simp add: demo_defs create_defs)

section \<open>The occupancy guard\<close>




section \<open>Cancelling through updateReservation\<close>

lemma findById_id: "findById idOf i ds = Some d \<Longrightarrow> idOf d = i"
  unfolding findById_def by (auto simp: find_Some_iff)

lemma findById_save:
  "findById idOf i ds = Some d \<Longrightarrow> idOf d' = i \<Longrightarrow> findById idOf i (save idOf d' ds) = Some d'"
  unfolding findById_def save_def
  by (induction ds) (auto split: if_splits)

lemma applyReservationUpdate_id [simp]: "res_id (applyReservationUpdate r b now) = res_id r"
  by (simp add: applyReservationUpdate_def Let_def)

lemma applyReservationUpdate_status:
  "truthy (u_status b) \<Longrightarrow> res_status (applyReservationUpdate r b now) = the (u_status b)"
  by (simp add: applyReservationUpdate_def Let_def)

text \<open>
  The handler does not look at the current status: the guest of a checked-in stay
  cancels it.
\<close>

theorem cancel_checked_in_counterexample:
  "findById res_id 1 (reservations (dbWith checkedInStay)) = Some checkedInStay \<and>
   res_status checkedInStay = ''checked-in'' \<and> guestId checkedInStay = user_id guestUser \<and>
   updateReservation acceptAll (dbWith checkedInStay) guestUser 1 cancelBody 5 =
     (Success 200 (checkedInStay\<lparr> res_status := ''cancelled'', res_updatedAt := Some 5 \<rparr>),
      dbWith (checkedInStay\<lparr> res_status := ''cancelled'', res_updatedAt := Some 5 \<rparr>))"
  by (simp add: demo_defs updateReservation_def applyReservationUpdate_def
      findById_def save_def truthy_def Let_def)

text \<open>
  C2, as amended. A request that sets the status of an existing reservation to
  \<open>cancelled\<close> is refused with 403, nothing changed, when the caller is a guest who
  does not own the reservation. From every other caller (staff, or the guest who owns
  it) it succeeds whatever the current status is, when the schema accepts the saved
  document: the response is 200 and the stored status is \<open>cancelled\<close>.
\<close>

theorem updateReservation_cancel:
  assumes "findById res_id i (reservations st) = Some r" and "u_status b = Some ''cancelled''"
  shows "(role u = ''guest'' \<and> guestId r \<noteq> user_id u \<longrightarrow>
            updateReservation accepts st u i b now = (Failure 403 (Text ''Not authorized''), st)) \<and>
         (\<not> (role u = ''guest'' \<and> guestId r \<noteq> user_id u) \<and>
            accepts (applyReservationUpdate r b now) \<longrightarrow>
            (\<exists>r' st'. updateReservation accepts st u i b now = (Success 200 r', st') \<and>
               res_status r' = ''cancelled'' \<and>
               findById res_id i (reservations st') = Some r'))"
proof -
  have t: "truthy (u_status b)" using assms(2) by (simp add: truthy_def)
  have s: "res_status (applyReservationUpdate r b now) = ''cancelled''"
    using applyReservationUpdate_status [OF t] assms(2) by simp
  have f: "findById res_id i (save res_id (applyReservationUpdate r b now) (reservations st)) =
           Some (applyReservationUpdate r b now)"
    using findById_save [OF assms(1)] findById_id [OF assms(1)] by simp
  show ?thesis
    using assms s f unfolding updateReservation_def Let_def by auto
qed

theorem updateReservation_cancel_witness:
  "findById res_id 1 (reservations (dbWith checkedInStay)) = Some checkedInStay \<and>
   u_status cancelBody = Some ''cancelled'' \<and>
   updateReservation acceptAll (dbWith checkedInStay) otherGuest 1 cancelBody 5 =
     (Failure 403 (Text ''Not authorized''), dbWith checkedInStay) \<and>
   fst (updateReservation acceptAll (dbWith checkedInStay) receptionist 1 cancelBody 5) =
     Success 200 (checkedInStay\<lparr> res_status := ''cancelled'', res_updatedAt := Some 5 \<rparr>)"
  using updateReservation_cancel [where i = 1 and st = "dbWith checkedInStay"
      and r = checkedInStay and b = cancelBody and u = otherGuest
      and accepts = acceptAll and now = 5]
    updateReservation_cancel [where i = 1 and st = "dbWith checkedInStay"
      and r = checkedInStay and b = cancelBody and u = receptionist
      and accepts = acceptAll and now = 5]
  by (simp add: demo_defs updateReservation_def applyReservationUpdate_def
      findById_def save_def truthy_def Let_def)

section \<open>The guard of checkOut\<close>

text \<open>
  C6. \<open>checkOut\<close> on a reservation whose status is not \<open>checked-in\<close> answers 400
  with the message of the transition guard and changes nothing: the state after is
  the state before, reservations and rooms alike.
\<close>

theorem checkOut_requires_checked_in:
  assumes "findById res_id i (reservations st) = Some r" and "res_status r \<noteq> ''checked-in''"
  shows "checkOut accepts st i now =
           (Failure 400 (Text ''Only checked-in reservations can be checked out''), st)"
  using assms unfolding checkOut_def by simp

theorem checkOut_requires_checked_in_witness:
  "findById res_id 1 (reservations (dbWith stayA)) = Some stayA \<and>
   res_status stayA = ''confirmed'' \<and>
   checkOut acceptAll (dbWith stayA) 1 5 =
     (Failure 400 (Text ''Only checked-in reservations can be checked out''), dbWith stayA)"
  using checkOut_requires_checked_in [where i = 1 and st = "dbWith stayA" and r = stayA
      and accepts = acceptAll and now = 5]
  by (simp add: demo_defs findById_def)

section \<open>Completing a cleaning task\<close>

lemmas hk_demo_defs = cleaningTask_def housekeeper_def completeBody_def completedTask_def
  taskDb_def march2024_def demoRoom_def

lemmas updateTask_defs = updateTask_def staffUpdate_def managerUpdate_def copyKeys_def
  roomAfterTask_def housekeepingValid_def findById_def save_def truthy_def Let_def

text \<open>
  C4. When \<open>updateTask\<close> leaves a task of type \<open>cleaning\<close> with status
  \<open>completed\<close>, the task's room becomes \<open>available\<close> if its status was
  \<open>cleaning\<close>, and with any other status the rooms are left as they were.
\<close>

theorem updateTask_cleaning_completed:
  assumes "updateTask st u i b now = (Success c task', st')"
    and "hk_status task' = ''completed''" and "taskType task' = ''cleaning''"
    and "rooms st (hk_roomId task') = Some room"
  shows "(room_status room = ''cleaning'' \<longrightarrow>
            rooms st' = (rooms st)(hk_roomId task' \<mapsto> room\<lparr> room_status := ''available'' \<rparr>)) \<and>
         (room_status room \<noteq> ''cleaning'' \<longrightarrow> rooms st' = rooms st)"
  using assms unfolding updateTask_def Let_def
  by (auto split: option.splits if_splits simp: roomAfterTask_def)

text \<open>
  The examples P4 and P5 of the specification: completing the cleaning task frees a
  room that is being cleaned, and leaves an occupied room occupied.
\<close>

theorem updateTask_cleaning_completed_witness:
  "updateTask (taskDb ''cleaning'') housekeeper 1 completeBody (march2024 14) =
     (Success 200 completedTask,
      \<lparr> rooms = [7 \<mapsto> demoRoom\<lparr> room_status := ''available'' \<rparr>], reservations = [],
        tasks = [completedTask], requests = [] \<rparr>) \<and>
   updateTask (taskDb ''occupied'') housekeeper 1 completeBody (march2024 14) =
     (Success 200 completedTask,
      \<lparr> rooms = [7 \<mapsto> demoRoom\<lparr> room_status := ''occupied'' \<rparr>], reservations = [],
        tasks = [completedTask], requests = [] \<rparr>)"
  using updateTask_cleaning_completed [where st = "taskDb ''cleaning''" and u = housekeeper
      and i = 1 and b = completeBody and now = "march2024 14" and c = 200
      and task' = completedTask and room = "demoRoom\<lparr> room_status := ''cleaning'' \<rparr>"
      and st' = "snd (updateTask (taskDb ''cleaning'') housekeeper 1 completeBody (march2024 14))"]
    updateTask_cleaning_completed [where st = "taskDb ''occupied''" and u = housekeeper
      and i = 1 and b = completeBody and now = "march2024 14" and c = 200
      and task' = completedTask and room = "demoRoom\<lparr> room_status := ''occupied'' \<rparr>"
      and st' = "snd (updateTask (taskDb ''occupied'') housekeeper 1 completeBody (march2024 14))"]
  by (simp add: hk_demo_defs updateTask_defs)

section \<open>Maintenance requests and the room\<close>

lemmas mt_demo_defs = leakBody_def leak_def blankBody_def roomDb_def leakDb_def priorityBody_def
  resolveBody_def march2024_def demoRoom_def guestUser_def

lemmas request_defs = createRequest_def newRequest_def maintenanceValid_def nonNegative_def
  updateRequest_def applyRequestUpdate_def statusGate_def trim_def whitespace_def
  freshId_def findById_def save_def truthy_def Let_def

text \<open>
  C8. A maintenance request created with priority \<open>urgent\<close> puts its room in status
  \<open>maintenance\<close> at creation, whatever the room's status was, while the request is
  still \<open>reported\<close> and unassigned; with any other priority the rooms are unchanged.
  The request is created when its room exists and the schema's validators accept it
  (a known issue type and priority, a description that is not empty once trimmed);
  a request that is not created changes nothing.
\<close>

theorem createRequest_urgent:
  "(rb_priority b \<noteq> Some ''urgent'' \<longrightarrow> rooms (snd (createRequest st u b now)) = rooms st) \<and>
   (rb_roomId b = Some rid \<and> rooms st rid = Some room \<and>
    maintenanceValid (newRequest st u rid b now) \<longrightarrow>
      (\<exists>r st'. createRequest st u b now = (Success 201 r, st') \<and>
         requests st' = requests st @ [r] \<and> mt_status r = ''reported'' \<and>
         mt_assignedTo r = None \<and>
         rooms st' = (if rb_priority b = Some ''urgent''
                      then (rooms st)(rid \<mapsto> room\<lparr> room_status := ''maintenance'' \<rparr>)
                      else rooms st))) \<and>
   ((\<forall>r. fst (createRequest st u b now) \<noteq> Success 201 r) \<longrightarrow>
      snd (createRequest st u b now) = st)"
  unfolding createRequest_def Let_def
  by (auto split: option.splits simp: newRequest_def)

text \<open>
  An urgent and a high-priority request on an occupied room, and an urgent request
  whose description is a single no-break space: the schema rejects it, the answer is
  500 and the room stays occupied.
\<close>

theorem createRequest_urgent_witness:
  "createRequest (roomDb ''occupied'') guestUser (leakBody ''urgent'') (march2024 14) =
     (Success 201 (leak ''urgent''),
      \<lparr> rooms = [7 \<mapsto> demoRoom\<lparr> room_status := ''maintenance'' \<rparr>], reservations = [],
        tasks = [], requests = [leak ''urgent''] \<rparr>) \<and>
   createRequest (roomDb ''occupied'') guestUser (leakBody ''high'') (march2024 14) =
     (Success 201 (leak ''high''),
      \<lparr> rooms = [7 \<mapsto> demoRoom\<lparr> room_status := ''occupied'' \<rparr>], reservations = [],
        tasks = [], requests = [leak ''high''] \<rparr>) \<and>
   createRequest (roomDb ''occupied'') guestUser blankBody (march2024 14) =
     (ServerError, roomDb ''occupied'')"
  using createRequest_urgent [where b = "leakBody ''urgent''" and st = "roomDb ''occupied''"
      and u = guestUser and now = "march2024 14" and rid = 7
      and room = "demoRoom\<lparr> room_status := ''occupied'' \<rparr>"]
    createRequest_urgent [where b = "leakBody ''high''" and st = "roomDb ''occupied''"
      and u = guestUser and now = "march2024 14" and rid = 7
      and room = "demoRoom\<lparr> room_status := ''occupied'' \<rparr>"]
  by (simp add: mt_demo_defs request_defs)

section \<open>Who may update a maintenance request\<close>


lemma applyRequestUpdate_id [simp]: "mt_id (applyRequestUpdate r b) = mt_id r"
  by (simp add: applyRequestUpdate_def Let_def)





end
